theory Spec2Isabelle
  imports Complex_Main
begin

section \<open>The art item card (src/components/common/ArtItem.js)\<close>

text \<open>
  The file holds two versions of the component. The development below embeds the second
  one, the forwarded-ref function \<open>ArtItemWithRef\<close> with its inner function
  \<open>copyImageOnCanvas\<close>, its \<open>propTypes\<close> and its \<open>defaultProps\<close>.
\<close>

subsection \<open>JavaScript values and truthiness\<close>

text \<open>
  A JavaScript number is NaN, an infinity or a finite value. The finite values are taken
  as rationals (every finite double is one); positive and negative zero are both
  \<open>Finite 0\<close>, and both are falsy.
\<close>

datatype js_number = NaN | PosInfinity | NegInfinity | Finite rat

fun truthy_number :: "js_number \<Rightarrow> bool" where
  "truthy_number NaN = False"
| "truthy_number PosInfinity = True"
| "truthy_number NegInfinity = True"
| "truthy_number (Finite q) = (q \<noteq> 0)"

text \<open>An optional string prop: \<open>None\<close> is \<open>undefined\<close>; the empty string is falsy.\<close>

fun truthy_string :: "string option \<Rightarrow> bool" where
  "truthy_string None = False"
| "truthy_string (Some s) = (s \<noteq> [])"

text \<open>\<open>buttonText: PropTypes.oneOfType([PropTypes.string, PropTypes.number])\<close>\<close>

datatype label = Text string | Number js_number

fun truthy_label :: "label option \<Rightarrow> bool" where
  "truthy_label None = False"
| "truthy_label (Some (Text s)) = (s \<noteq> [])"
| "truthy_label (Some (Number n)) = truthy_number n"

subsection \<open>Click events and callbacks\<close>

record click_event =
  propagationStopped :: bool
  defaultPrevented :: bool

text \<open>
  A caller-supplied click handler may stop the propagation of the event, prevent its
  default and change the caller's own world \<open>'w\<close>.
\<close>

type_synonym 'w callback = "click_event \<Rightarrow> 'w \<Rightarrow> click_event \<times> 'w"

subsection \<open>Props\<close>

record 'w props =
  gemId :: "string option"
  dataUrl :: "string option"
  buttonText :: "label option"
  isButtonDisabled :: "bool option"
  onButtonClick :: "'w callback option"

text \<open>\<open>ArtItem.defaultProps = { onButtonClick: () => {} }\<close>\<close>

definition noop :: "'w callback" where
  "noop e w = (e, w)"

definition defaultProps :: "'w props \<Rightarrow> 'w props" where
  "defaultProps p =
     (case onButtonClick p of None \<Rightarrow> p\<lparr>onButtonClick := Some noop\<rparr> | Some h \<Rightarrow> p)"

subsection \<open>The container: link or plain block\<close>

text \<open>\<open>useLocation()\<close> gives the current location; the component reads its pathname.\<close>

record location =
  pathname :: string

text \<open>The object passed as \<open>to\<close>: \<open>{ pathname, prevPathname }\<close>.\<close>

record to_object = location +
  prevPathname :: string

datatype container_kind = Link | Div

record params =
  to :: "to_object option"
  as :: container_kind

definition isLink :: "string option \<Rightarrow> bool" where
  "isLink g = truthy_string g"

text \<open>The template literal \<open>`/gem/${gemId}`\<close>.\<close>

fun gem_path :: "string option \<Rightarrow> string" where
  "gem_path None = ''/gem/undefined''"
| "gem_path (Some g) = ''/gem/'' @ g"

definition mk_params :: "location \<Rightarrow> string option \<Rightarrow> params" where
  "mk_params loc g =
     \<lparr>to = (if isLink g
            then Some \<lparr>pathname = gem_path g, prevPathname = pathname loc\<rparr>
            else None),
      as = (if isLink g then Link else Div)\<rparr>"

subsection \<open>The image element and the canvas\<close>

text \<open>
  A loaded image: its natural size and its pixels. A canvas: its size and its bitmap. The
  bitmap keeps, for each position, the pixels painted there since the bitmap was last
  reset, the latest first; the empty list is the transparent black of a reset bitmap.
\<close>

record 'px image =
  naturalWidth :: nat
  naturalHeight :: nat
  pixels :: "nat \<times> nat \<Rightarrow> 'px"

record 'px canvas =
  width :: nat
  height :: nat
  bitmap :: "nat \<times> nat \<Rightarrow> 'px list"

text \<open>A canvas element as the document creates it: 300 by 150, nothing painted.\<close>

definition blank_canvas :: "'px canvas" where
  "blank_canvas = \<lparr>width = 300, height = 150, bitmap = (\<lambda>_. [])\<rparr>"

text \<open>
  Assigning \<open>canvas.width\<close> or \<open>canvas.height\<close> resets the bitmap, also when the value
  assigned is the current one.
\<close>

definition set_width :: "nat \<Rightarrow> 'px canvas \<Rightarrow> 'px canvas" where
  "set_width w c = c\<lparr>width := w, bitmap := (\<lambda>_. [])\<rparr>"

definition set_height :: "nat \<Rightarrow> 'px canvas \<Rightarrow> 'px canvas" where
  "set_height h c = c\<lparr>height := h, bitmap := (\<lambda>_. [])\<rparr>"

text \<open>
  \<open>ctx.drawImage(image, dx, dy)\<close> paints the image at its natural size with its top left
  corner at \<open>(dx, dy)\<close>, over what is there, clipped to the canvas.
\<close>

definition drawImage :: "'px image \<Rightarrow> nat \<Rightarrow> nat \<Rightarrow> 'px canvas \<Rightarrow> 'px canvas" where
  "drawImage im dx dy c =
     c\<lparr>bitmap := (\<lambda>(x, y).
         if dx \<le> x \<and> x < dx + naturalWidth im \<and> dy \<le> y \<and> y < dy + naturalHeight im
            \<and> x < width c \<and> y < height c
         then pixels im (x - dx, y - dy) # bitmap c (x, y)
         else bitmap c (x, y))\<rparr>"

text \<open>
  The state of one component instance: \<open>canvasRef.current\<close>, which is the address of the
  canvas element while the component is in the view tree and empty otherwise, and the
  canvas elements by address. An element that has left the tree stays in the store.
\<close>

record 'px card =
  canvasRef :: "nat option"
  elements :: "nat \<Rightarrow> 'px canvas"

text \<open>
  \<open>useRef()\<close> starts the ref empty; \<open><canvas ref={canvasRef} />\<close> makes the view
  library store the new element in the ref when the component enters the tree and empty
  the ref when it leaves.
\<close>

definition initial :: "'px card" where
  "initial = \<lparr>canvasRef = None, elements = (\<lambda>_. blank_canvas)\<rparr>"

definition mount :: "nat \<Rightarrow> 'px card \<Rightarrow> 'px card" where
  "mount a st = st\<lparr>canvasRef := Some a, elements := (elements st)(a := blank_canvas)\<rparr>"


datatype error = TypeError

type_synonym 'px outcome = "(error + unit) \<times> 'px card"

text \<open>
  \<open>copyImageOnCanvas(event)\<close>, with \<open>event.target\<close> the loaded image. Reading
  \<open>getContext\<close> off an empty ref throws; the three writes follow it. The canvas is
  private to the component, so its 2d context is always granted.
\<close>

definition copyImageOnCanvas :: "'px image \<Rightarrow> 'px card \<Rightarrow> 'px outcome" where
  "copyImageOnCanvas im st =
     (case canvasRef st of
        None \<Rightarrow> (Inl TypeError, st)
      | Some a \<Rightarrow>
          (let c = elements st a;
               c = set_width (naturalWidth im) c;
               c = set_height (naturalHeight im) c;
               c = drawImage im 0 0 c
           in (Inr (), st\<lparr>elements := (elements st)(a := c)\<rparr>)))"

subsection \<open>The rendered tree\<close>

text \<open>
  The image element with the handlers the component binds. The source binds \<open>onLoad\<close>
  only; \<open>onError\<close> is the prop it leaves out. The forwarded \<open>ref\<close> belongs to the caller
  and is not modelled.
\<close>

record 'px img =
  src :: string
  alt :: string
  onLoad :: "('px image \<Rightarrow> 'px card \<Rightarrow> 'px outcome) option"
  onError :: "('px card \<Rightarrow> 'px outcome) option"

record 'w button =
  isPrimary :: bool
  isSmall :: bool
  isDisabled :: "bool option"
  onClick :: "'w callback option"
  children :: "label option"

text \<open>
  The value of \<open>{buttonText && (<Button ...>)}\<close>: the left operand itself when it is
  falsy, the element otherwise.
\<close>

datatype 'w child = Value "label option" | Element "'w button"

definition js_and :: "label option \<Rightarrow> 'w button \<Rightarrow> 'w child" where
  "js_and a b = (if truthy_label a then Element b else Value a)"

text \<open>\<open>dataUrl || placeholderDataUrl\<close>\<close>

definition js_or :: "string option \<Rightarrow> string \<Rightarrow> string" where
  "js_or a b = (if truthy_string a then (case a of Some s \<Rightarrow> s | None \<Rightarrow> b) else b)"

record ('px, 'w) view =
  container :: params
  image_el :: "'px img"
  action :: "'w child"

text \<open>
  The function component. The placeholder asset is an import of the source; its URL is
  the parameter \<open>placeholderDataUrl\<close>.
\<close>

definition ArtItemWithRef :: "string \<Rightarrow> location \<Rightarrow> 'w props \<Rightarrow> ('px, 'w) view" where
  "ArtItemWithRef placeholderDataUrl loc p =
     \<lparr>container = mk_params loc (gemId p),
      image_el = \<lparr>src = js_or (dataUrl p) placeholderDataUrl, alt = ''art'',
                  onLoad = Some copyImageOnCanvas, onError = None\<rparr>,
      action = js_and (buttonText p)
                 \<lparr>isPrimary = True, isSmall = True, isDisabled = isButtonDisabled p,
                  onClick = onButtonClick p, children = buttonText p\<rparr>\<rparr>"

text \<open>The exported component: the view library fills in the default props first.\<close>

definition ArtItem :: "string \<Rightarrow> location \<Rightarrow> 'w props \<Rightarrow> ('px, 'w) view" where
  "ArtItem placeholderDataUrl loc p = ArtItemWithRef placeholderDataUrl loc (defaultProps p)"

subsection \<open>Events\<close>

text \<open>
  The image element reports the end of its load with one event, load or error. The view
  library hands an event to the handler bound for it only while the component is in the
  tree: an event whose target has left the tree is dropped. An event with no handler
  bound changes nothing.
\<close>

datatype 'px image_event = LoadEvent "'px image" | ErrorEvent

fun fire_image_event :: "'px img \<Rightarrow> 'px image_event \<Rightarrow> 'px card \<Rightarrow> 'px outcome" where
  "fire_image_event el (LoadEvent im) st =
     (case canvasRef st of
        None \<Rightarrow> (Inr (), st)
      | Some _ \<Rightarrow> (case onLoad el of None \<Rightarrow> (Inr (), st) | Some h \<Rightarrow> h im st))"
| "fire_image_event el ErrorEvent st =
     (case canvasRef st of
        None \<Rightarrow> (Inr (), st)
      | Some _ \<Rightarrow> (case onError el of None \<Rightarrow> (Inr (), st) | Some h \<Rightarrow> h st))"

text \<open>
  Modelled from the spec: the Button component (\<open>../Button\<close>), which the source imports
  from a sibling file that is not at hand. The spec describes it as a primitive taking
  variant flags, a disabled flag, a click handler and its label as children. Of a click
  it says: clicking the control invokes the handler; a missing handler makes the click
  do nothing; the click must not trigger the navigation of the container, the event must
  not bubble into the link. So the control calls its handler once with the event and
  stops the propagation of the event. A disabled control takes no click.
\<close>

definition Button_click ::
  "'w button \<Rightarrow> click_event \<Rightarrow> 'w \<Rightarrow> (click_event \<times> 'w) option" where
  "Button_click b e w =
     (if isDisabled b = Some True then None
      else (case (case onClick b of None \<Rightarrow> (e, w) | Some h \<Rightarrow> h e w) of
              (e', w') \<Rightarrow> Some (e'\<lparr>propagationStopped := True\<rparr>, w')))"

text \<open>
  A click that reaches the container: the router's \<open>Link\<close> navigates to its \<open>to\<close> unless
  the default of the event has been prevented; a \<open>div\<close> does nothing.
\<close>

definition container_click :: "params \<Rightarrow> click_event \<Rightarrow> to_object option" where
  "container_click ps e =
     (case as ps of
        Div \<Rightarrow> None
      | Link \<Rightarrow> (if defaultPrevented e then None else to ps))"

definition fresh_click :: click_event where
  "fresh_click = \<lparr>propagationStopped = False, defaultPrevented = False\<rparr>"

text \<open>
  A click on the action control of a rendered card. The control is a child of the
  container, so the event goes to the control first and then up to the container, unless
  its propagation has been stopped. The result is the caller's world after the click and
  the navigation triggered, if any; there is no result when the tree has no enabled
  control to click.
\<close>

definition click_action :: "('px, 'w) view \<Rightarrow> 'w \<Rightarrow> ('w \<times> to_object option) option" where
  "click_action v w =
     (case action v of
        Value _ \<Rightarrow> None
      | Element b \<Rightarrow>
          (case Button_click b fresh_click w of
             None \<Rightarrow> None
           | Some (e, w') \<Rightarrow>
               Some (w', if propagationStopped e then None
                         else container_click (container v) e)))"

fun rendered_button :: "'w child \<Rightarrow> 'w button option" where
  "rendered_button (Value _) = None"
| "rendered_button (Element b) = Some b"

subsection \<open>Sample inputs\<close>

definition here :: location where
  "here = \<lparr>pathname = ''/gallery''\<rparr>"

definition gem42_props :: "nat props" where
  "gem42_props =
     \<lparr>gemId = Some ''gem42'', dataUrl = Some ''https://x/img.png'',
      buttonText = Some (Text ''Bid 55''), isButtonDisabled = None, onButtonClick = None\<rparr>"

definition no_props :: "nat props" where
  "no_props =
     \<lparr>gemId = None, dataUrl = None, buttonText = None, isButtonDisabled = None,
      onButtonClick = None\<rparr>"

definition zero_label_props :: "nat props" where
  "zero_label_props = gem42_props\<lparr>buttonText := Some (Number (Finite 0))\<rparr>"

definition counting :: "nat callback" where
  "counting e n = (e, Suc n)"

definition counting_props :: "nat props" where
  "counting_props = gem42_props\<lparr>onButtonClick := Some counting\<rparr>"

definition tiny_image :: "nat image" where
  "tiny_image = \<lparr>naturalWidth = 2, naturalHeight = 1, pixels = (\<lambda>(x, y). x + 2 * y + 7)\<rparr>"

section \<open>Properties\<close>

subsection \<open>Container\<close>

lemma container_ArtItem: "container (ArtItem ph loc p) = mk_params loc (gemId p)"
  by (simp add: ArtItem_def ArtItemWithRef_def defaultProps_def split: option.split)

text \<open>
  C1, as the source has it: for every non-empty \<open>gemId\<close> the container is a link and the
  path of its target is \<open>/gem/\<close> followed by the identifier.
\<close>

theorem C1_link_path:
  assumes "gemId p = Some g" and "g \<noteq> []"
  shows "as (container (ArtItem ph loc p)) = Link
    \<and> map_option pathname (to (container (ArtItem ph loc p))) = Some (''/gem/'' @ g)"
  using assms by (simp add: container_ArtItem mk_params_def isLink_def)

theorem C1_link_path_witness:
  "gemId gem42_props = Some ''gem42'' \<and> ''gem42'' \<noteq> []
   \<and> as (container (ArtItem ''art.png'' here gem42_props :: (nat, nat) view)) = Link
   \<and> map_option pathname (to (container (ArtItem ''art.png'' here gem42_props :: (nat, nat) view)))
       = Some ''/gem/gem42''"
proof -
  have g: "gemId gem42_props = Some ''gem42''" by (simp add: gem42_props_def)
  have n: "''gem42'' \<noteq> []" by simp
  from C1_link_path [OF g n, of "''art.png''" here] g n
  show ?thesis by simp
qed

text \<open>
  C1 as the claim words it fails: the identifier gem42 gives the path \<open>/gem/gem42\<close>, which
  is not \<open>/item/gem42\<close>.
\<close>

theorem C1_item_path_counterexample:
  "map_option pathname (to (container (ArtItem ''art.png'' here gem42_props :: (nat, nat) view)))
     \<noteq> Some ''/item/gem42''"
  by (simp add: container_ArtItem mk_params_def isLink_def gem42_props_def)

text \<open>
  C6: with a non-empty \<open>gemId\<close> the card is a link whose target carries the pathname of
  the current location as \<open>prevPathname\<close>; with \<open>gemId\<close> undefined or empty the container
  is a plain \<open>div\<close> with no target.
\<close>

theorem C6_link_or_block:
  "(gemId p = Some g \<and> g \<noteq> [] \<longrightarrow>
      as (container (ArtItem ph loc p)) = Link
      \<and> map_option prevPathname (to (container (ArtItem ph loc p))) = Some (pathname loc))
   \<and> (gemId p = None \<or> gemId p = Some [] \<longrightarrow>
      as (container (ArtItem ph loc p)) = Div \<and> to (container (ArtItem ph loc p)) = None)"
  by (auto simp add: container_ArtItem mk_params_def isLink_def)

theorem C6_link_or_block_witness:
  "(gemId gem42_props = Some ''gem42'' \<and> ''gem42'' \<noteq> [])
   \<and> as (container (ArtItem ''art.png'' here gem42_props :: (nat, nat) view)) = Link
   \<and> map_option prevPathname
        (to (container (ArtItem ''art.png'' here gem42_props :: (nat, nat) view)))
       = Some ''/gallery''
   \<and> gemId no_props = None
   \<and> as (container (ArtItem ''art.png'' here no_props :: (nat, nat) view)) = Div
   \<and> to (container (ArtItem ''art.png'' here no_props :: (nat, nat) view)) = None"
proof -
  have g: "gemId gem42_props = Some ''gem42'' \<and> ''gem42'' \<noteq> []"
    by (simp add: gem42_props_def)
  have u: "gemId no_props = None" by (simp add: no_props_def)
  from C6_link_or_block [of gem42_props "''gem42''" "''art.png''" here] g
  have l: "as (container (ArtItem ''art.png'' here gem42_props :: (nat, nat) view)) = Link
    \<and> map_option prevPathname
        (to (container (ArtItem ''art.png'' here gem42_props :: (nat, nat) view)))
       = Some (pathname here)"
    by blast
  from C6_link_or_block [of no_props "''x''" "''art.png''" here] u
  have d: "as (container (ArtItem ''art.png'' here no_props :: (nat, nat) view)) = Div
    \<and> to (container (ArtItem ''art.png'' here no_props :: (nat, nat) view)) = None"
    by blast
  from g u l d show ?thesis by (simp add: here_def)
qed

subsection \<open>Image source\<close>

lemma src_ArtItem: "src (image_el (ArtItem ph loc p)) = js_or (dataUrl p) ph"
  by (simp add: ArtItem_def ArtItemWithRef_def defaultProps_def split: option.split)

text \<open>
  C8: when \<open>dataUrl\<close> is undefined, the source of the rendered image is the placeholder
  asset.
\<close>

theorem C8_placeholder_when_undefined:
  "dataUrl p = None \<Longrightarrow> src (image_el (ArtItem ph loc p)) = ph"
  by (simp add: src_ArtItem js_or_def)

theorem C8_placeholder_when_undefined_witness:
  "dataUrl no_props = None
   \<and> src (image_el (ArtItem ''art.png'' here no_props :: (nat, nat) view)) = ''art.png''"
proof -
  have u: "dataUrl no_props = None" by (simp add: no_props_def)
  from C8_placeholder_when_undefined [OF u, of "''art.png''" here] u
  show ?thesis by simp
qed

text \<open>
  C10: when \<open>dataUrl\<close> is the empty string, the source of the rendered image is the
  placeholder asset as well: the fallback goes by the truthiness of the prop.
\<close>

theorem C10_placeholder_when_empty:
  "dataUrl p = Some [] \<Longrightarrow> src (image_el (ArtItem ph loc p)) = ph"
  by (simp add: src_ArtItem js_or_def)

theorem C10_placeholder_when_empty_witness:
  "dataUrl (no_props\<lparr>dataUrl := Some []\<rparr>) = Some []
   \<and> src (image_el (ArtItem ''art.png'' here (no_props\<lparr>dataUrl := Some []\<rparr>) :: (nat, nat) view))
       = ''art.png''"
proof -
  have e: "dataUrl (no_props\<lparr>dataUrl := Some []\<rparr>) = Some []" by simp
  from C10_placeholder_when_empty [OF e, of "''art.png''" here] e
  show ?thesis by simp
qed

subsection \<open>Action control\<close>

lemma action_ArtItem:
  "action (ArtItem ph loc p) =
     js_and (buttonText p)
       \<lparr>isPrimary = True, isSmall = True, isDisabled = isButtonDisabled p,
        onClick = Some (case onButtonClick p of None \<Rightarrow> noop | Some h \<Rightarrow> h),
        children = buttonText p\<rparr>"
  by (simp add: ArtItem_def ArtItemWithRef_def defaultProps_def split: option.split)

lemma truthy_label_iff:
  "truthy_label l \<longleftrightarrow>
     (\<exists>s. l = Some (Text s) \<and> s \<noteq> [])
     \<or> (\<exists>n. l = Some (Number n) \<and> n \<noteq> NaN \<and> n \<noteq> Finite 0)"
proof (cases l)
  case None
  then show ?thesis by simp
next
  case (Some x)
  show ?thesis
  proof (cases x)
    case (Text s)
    with Some show ?thesis by simp
  next
    case (Number n)
    with Some show ?thesis by (cases n) simp_all
  qed
qed

text \<open>
  C2, as the source has it: the action control is rendered exactly when \<open>buttonText\<close> is
  truthy, that is a non-empty string or a number other than zero and NaN; when it is
  rendered it is the one element of its slot and carries \<open>buttonText\<close> as its label; when
  \<open>buttonText\<close> is absent no control is rendered.
\<close>

theorem C2_action_iff_truthy:
  "(rendered_button (action (ArtItem ph loc p)) \<noteq> None \<longleftrightarrow>
      (\<exists>s. buttonText p = Some (Text s) \<and> s \<noteq> [])
      \<or> (\<exists>n. buttonText p = Some (Number n) \<and> n \<noteq> NaN \<and> n \<noteq> Finite 0))
   \<and> (\<forall>b. rendered_button (action (ArtItem ph loc p)) = Some b \<longrightarrow>
         action (ArtItem ph loc p) = Element b \<and> children b = buttonText p)
   \<and> (buttonText p = None \<longrightarrow> rendered_button (action (ArtItem ph loc p)) = None)"
proof (cases "truthy_label (buttonText p)")
  case True
  then show ?thesis
    using truthy_label_iff [of "buttonText p"]
    by (auto simp add: action_ArtItem js_and_def)
next
  case False
  then show ?thesis
    using truthy_label_iff [of "buttonText p"]
    by (auto simp add: action_ArtItem js_and_def)
qed

theorem C2_action_iff_truthy_witness:
  "buttonText gem42_props = Some (Text ''Bid 55'') \<and> ''Bid 55'' \<noteq> []
   \<and> map_option children
        (rendered_button (action (ArtItem ''art.png'' here gem42_props :: (nat, nat) view)))
       = Some (Some (Text ''Bid 55''))
   \<and> buttonText no_props = None
   \<and> rendered_button (action (ArtItem ''art.png'' here no_props :: (nat, nat) view)) = None"
proof -
  let ?v = "ArtItem ''art.png'' here gem42_props :: (nat, nat) view"
  have t: "buttonText gem42_props = Some (Text ''Bid 55'') \<and> ''Bid 55'' \<noteq> []"
    by (simp add: gem42_props_def)
  have u: "buttonText no_props = None" by (simp add: no_props_def)
  from C2_action_iff_truthy [of "''art.png''" here gem42_props] t
  have r: "rendered_button (action ?v) \<noteq> None"
    and c: "\<forall>b. rendered_button (action ?v) = Some b \<longrightarrow> children b = buttonText gem42_props"
    by blast+
  from r obtain b where b: "rendered_button (action ?v) = Some b" by blast
  with c have "children b = buttonText gem42_props" by blast
  with b t have l: "map_option children (rendered_button (action ?v))
      = Some (Some (Text ''Bid 55''))"
    by simp
  from C2_action_iff_truthy [of "''art.png''" here no_props] u
  have n: "rendered_button (action (ArtItem ''art.png'' here no_props :: (nat, nat) view)) = None"
    by blast
  from t u l n show ?thesis by simp
qed

text \<open>
  C2 as the claim words it fails at the number zero: \<open>0 && ...\<close> is \<open>0\<close>, so the slot holds
  the number itself and no action control.
\<close>

theorem C2_zero_label_counterexample:
  "rendered_button (action (ArtItem ''art.png'' here zero_label_props :: (nat, nat) view)) = None
   \<and> action (ArtItem ''art.png'' here zero_label_props :: (nat, nat) view)
       = Value (Some (Number (Finite 0)))"
  by (simp add: action_ArtItem js_and_def zero_label_props_def gem42_props_def)

text \<open>
  C3: in a render whose container is a link, with the action control shown and not
  disabled, a click on the control invokes \<open>onButtonClick\<close> (the no-op default when the
  caller gives none) exactly once, and triggers no navigation although the container is
  a link with a target: the event does not reach the link.
\<close>

theorem C3_click_invokes_once_no_navigation:
  assumes "isLink (gemId p)" and "truthy_label (buttonText p)"
    and "isButtonDisabled p \<noteq> Some True"
  shows "as (container (ArtItem ph loc p)) = Link
    \<and> to (container (ArtItem ph loc p))
        = Some \<lparr>pathname = gem_path (gemId p), prevPathname = pathname loc\<rparr>
    \<and> click_action (ArtItem ph loc p) w =
        Some (snd ((case onButtonClick p of None \<Rightarrow> noop | Some f \<Rightarrow> f) fresh_click w), None)"
  using assms
  by (simp add: click_action_def action_ArtItem js_and_def Button_click_def
      container_ArtItem mk_params_def split_beta)

theorem C3_click_invokes_once_no_navigation_witness:
  "isLink (gemId counting_props) \<and> truthy_label (buttonText counting_props)
   \<and> isButtonDisabled counting_props \<noteq> Some True
   \<and> as (container (ArtItem ''art.png'' here counting_props :: (nat, nat) view)) = Link
   \<and> to (container (ArtItem ''art.png'' here counting_props :: (nat, nat) view))
       = Some \<lparr>pathname = ''/gem/gem42'', prevPathname = ''/gallery''\<rparr>
   \<and> click_action (ArtItem ''art.png'' here counting_props :: (nat, nat) view) 0
       = Some (1, None)"
proof -
  have a: "isLink (gemId counting_props)"
    by (simp add: counting_props_def gem42_props_def isLink_def)
  have b: "truthy_label (buttonText counting_props)"
    by (simp add: counting_props_def gem42_props_def)
  have c: "isButtonDisabled counting_props \<noteq> Some True"
    by (simp add: counting_props_def gem42_props_def)
  from C3_click_invokes_once_no_navigation [OF a b c, of "''art.png''" here 0]
  have "as (container (ArtItem ''art.png'' here counting_props :: (nat, nat) view)) = Link
   \<and> to (container (ArtItem ''art.png'' here counting_props :: (nat, nat) view))
       = Some \<lparr>pathname = ''/gem/gem42'', prevPathname = ''/gallery''\<rparr>
   \<and> click_action (ArtItem ''art.png'' here counting_props :: (nat, nat) view) 0
       = Some (1, None)"
    by (simp add: counting_props_def gem42_props_def counting_def here_def)
  with a b c show ?thesis by simp
qed

subsection \<open>Capture on load\<close>


lemma onLoad_ArtItem: "onLoad (image_el (ArtItem ph loc p)) = Some copyImageOnCanvas"
  by (simp add: ArtItem_def ArtItemWithRef_def)

lemma canvas_after_capture:
  "drawImage im 0 0 (set_height (naturalHeight im) (set_width (naturalWidth im) c)) =
     \<lparr>width = naturalWidth im, height = naturalHeight im,
      bitmap = (\<lambda>(x, y). if x < naturalWidth im \<and> y < naturalHeight im
                          then [pixels im (x, y)] else [])\<rparr>"
  by (cases c) (simp add: drawImage_def set_height_def set_width_def fun_eq_iff)

text \<open>
  C5: a load event delivered while the component is in the tree is handled without an
  error, and leaves the canvas with the natural width and height of the image and with
  the pixels of the image and nothing else. The canvas after the load is given in closed form, with no
  trace of the canvas before it: it is replaced as a whole.
\<close>

theorem C5_capture_exact:
  assumes "canvasRef st = Some a"
  shows "fire_image_event (image_el (ArtItem ph loc p)) (LoadEvent im) st =
     (Inr (), st\<lparr>elements := (elements st)(a :=
        \<lparr>width = naturalWidth im, height = naturalHeight im,
         bitmap = (\<lambda>(x, y). if x < naturalWidth im \<and> y < naturalHeight im
                             then [pixels im (x, y)] else [])\<rparr>)\<rparr>)"
  using assms by (simp add: onLoad_ArtItem copyImageOnCanvas_def canvas_after_capture)

theorem C5_capture_exact_witness:
  "canvasRef (mount 0 (initial :: nat card)) = Some 0
   \<and> fst (fire_image_event (image_el (ArtItem ''art.png'' here gem42_props :: (nat, nat) view))
        (LoadEvent tiny_image) (mount 0 initial)) = Inr ()
   \<and> (let c = elements (snd (fire_image_event
                (image_el (ArtItem ''art.png'' here gem42_props :: (nat, nat) view))
                (LoadEvent tiny_image) (mount 0 initial))) 0
      in width c = 2 \<and> height c = 1 \<and> bitmap c (0, 0) = [7] \<and> bitmap c (1, 0) = [8]
         \<and> bitmap c (2, 0) = [] \<and> bitmap c (0, 1) = [])"
proof -
  have m: "canvasRef (mount 0 (initial :: nat card)) = Some 0"
    by (simp add: mount_def)
  from C5_capture_exact [OF m, of "''art.png''" here gem42_props tiny_image] m
  show ?thesis by (simp add: tiny_image_def)
qed

text \<open>
  C9: the capture is idempotent. Running it a second time with the same image gives the
  outcome and the state of running it once: the same size and the same content.
\<close>

theorem C9_capture_idempotent:
  "copyImageOnCanvas im (snd (copyImageOnCanvas im st)) = copyImageOnCanvas im st"
proof (cases "canvasRef st")
  case None
  then show ?thesis by (simp add: copyImageOnCanvas_def)
next
  case (Some a)
  then show ?thesis by (simp add: copyImageOnCanvas_def canvas_after_capture)
qed

text \<open>
  C7: the component binds the capture to the load event only. An error event finds no
  handler: it returns normally, with no error value, and leaves the state as it was, so a
  canvas that was blank stays blank.
\<close>

theorem C7_load_failure_is_silent:
  "onLoad (image_el (ArtItem ph loc p)) = Some copyImageOnCanvas
   \<and> onError (image_el (ArtItem ph loc p)) = None
   \<and> fire_image_event (image_el (ArtItem ph loc p)) ErrorEvent st = (Inr (), st)
   \<and> elements (snd (fire_image_event (image_el (ArtItem ph loc p)) ErrorEvent
        (mount a initial))) a = blank_canvas"
  by (simp add: ArtItem_def ArtItemWithRef_def mount_def split: option.split)

end
